theory Spec2Isabelle
  imports
    Complex_Main
    "HOL-Library.Char_ord"
    "HOL-Library.List_Lexorder"
    "HOL-Library.Product_Lexorder"
    "HOL-Library.Option_ord"
begin

section \<open>Python values and builtins shared by both variants\<close>

text \<open>
  Python floats are modelled as real numbers and Python ints as \<open>int\<close>. The exceptions
  that the modelled code can raise are values of \<open>py_exn\<close>; a computation that may raise
  returns \<open>py_exn + 'a\<close>.
\<close>

datatype py_exn =
    ZeroDivisionError
  | ValueError
  | TypeError
  | OverflowError
  | IntegrityError
  | OperationalError string
  | OtherError string


text \<open>Rounding to the nearest integer, ties to the even neighbour.\<close>

definition round_half_even :: "real \<Rightarrow> int" where
  "round_half_even y =
     (let f = \<lfloor>y\<rfloor>; d = y - of_int f
      in if d < 1 / 2 then f
         else if 1 / 2 < d then f + 1
         else if even f then f else f + 1)"


text \<open>\<open>needle in haystack\<close> on strings.\<close>

fun starts_with :: "string \<Rightarrow> string \<Rightarrow> bool" where
  "starts_with [] ys = True"
| "starts_with (x # xs) [] = False"
| "starts_with (x # xs) (y # ys) = (x = y \<and> starts_with xs ys)"

fun py_in :: "string \<Rightarrow> string \<Rightarrow> bool" where
  "py_in needle [] = (needle = [])"
| "py_in needle (y # ys) = (starts_with needle (y # ys) \<or> py_in needle ys)"

text \<open>
  The loop \<open>for attempt in range(n): ...\<close> whose body either returns a value or
  continues with the next attempt. When the range is exhausted the Python function falls
  off its end and the call yields \<open>None\<close>.
\<close>

datatype 'a attempt = Continue | Return 'a

fun for_attempts :: "(nat \<Rightarrow> 'a attempt) \<Rightarrow> nat list \<Rightarrow> 'a option" where
  "for_attempts body [] = None"
| "for_attempts body (a # as) =
     (case body a of Return r \<Rightarrow> Some r | Continue \<Rightarrow> for_attempts body as)"

text \<open>
  SQLite stores an INTEGER in 64 bits; binding a Python int outside that range raises
  \<open>OverflowError\<close> in the \<open>sqlite3\<close> module.
\<close>

definition sqlite_int_ok :: "int \<Rightarrow> bool" where
  "sqlite_int_ok i = (- (2 ^ 63) \<le> i \<and> i < 2 ^ 63)"

section \<open>Desktop variant: class AttendanceSystem (main.py)\<close>

text \<open>The two tables created by \<open>init_database\<close>.\<close>

record student =
  student_id :: string
  name :: string
  email :: string
  year :: string
  department :: string
  total_classes :: int
  present_classes :: int
  absent_classes :: int
  percentage :: real
  status :: string
  created_date :: string

record email_settings_row =
  es_id :: int
  sender_email :: string
  sender_password :: string
  hod_email :: string
  threshold_percentage :: real

text \<open>
  The object \<open>self\<close> is the database file it points to: the rows of \<open>students\<close> and of
  \<open>email_settings\<close>.
\<close>

record attendance_system =
  students :: "student list"
  email_settings :: "email_settings_row list"

definition init_database :: attendance_system where
  "init_database = \<lparr>students = [], email_settings = []\<rparr>"


definition get_status :: "attendance_system \<Rightarrow> real \<Rightarrow> string" where
  "get_status self pct =
     (if pct \<ge> 75 then ''Good''
      else if pct \<ge> 60 then ''Warning''
      else ''Critical'')"

text \<open>
  What the database does with one attempt is decided outside the program: the statement
  and its commit complete, or the connection raises \<open>sqlite3.OperationalError\<close> with a
  message (for instance "database is locked"), or something else fails. An attempt that
  raises before the commit leaves the file unchanged.
\<close>

datatype db_event = Completes | Operational string | Fails string

definition max_retries :: nat where
  "max_retries = 3"









text \<open>
  \<open>save_email_settings\<close>: INSERT OR REPLACE of the row with id 1. It returns a bare
  \<open>True\<close>/\<open>False\<close>; every failure, locked or not, is answered with \<open>False\<close> once the
  attempts are used up or the error is of another kind.
\<close>

definition save_email_settings_attempt ::
  "(nat \<Rightarrow> db_event) \<Rightarrow> attendance_system \<Rightarrow> string \<Rightarrow> string \<Rightarrow> string \<Rightarrow> real \<Rightarrow> nat
     \<Rightarrow> (bool \<times> attendance_system) attempt" where
  "save_email_settings_attempt db self se sp hod threshold attempt =
     (case db attempt of
        Operational m \<Rightarrow>
          if py_in ''locked'' m \<and> attempt < max_retries - 1 then Continue
          else Return (False, self)
      | Fails m \<Rightarrow> Return (False, self)
      | Completes \<Rightarrow>
          Return (True,
            self\<lparr>email_settings :=
              filter (\<lambda>r. es_id r \<noteq> 1) (email_settings self) @
                [\<lparr>es_id = 1, sender_email = se, sender_password = sp, hod_email = hod,
                  threshold_percentage = threshold\<rparr>]\<rparr>))"

definition save_email_settings ::
  "(nat \<Rightarrow> db_event) \<Rightarrow> attendance_system \<Rightarrow> string \<Rightarrow> string \<Rightarrow> string \<Rightarrow> real
     \<Rightarrow> bool option \<times> attendance_system" where
  "save_email_settings db self se sp hod threshold =
     (case for_attempts (save_email_settings_attempt db self se sp hod threshold)
             [0..<max_retries] of
        None \<Rightarrow> (None, self)
      | Some (r, self') \<Rightarrow> (Some r, self'))"


section \<open>Web variant: class ReportCardSystem\<close>

subsection \<open>Payload values and the builtins applied to them\<close>

text \<open>
  A value of the JSON payload: \<open>null\<close>, a number, a string, or a container (list or
  object). A JSON boolean behaves as the int 0 or 1 under \<open>float\<close> and \<open>int\<close>. Strings are
  lists of characters with code points below 256; NaN and the infinities are outside the
  model, as floats are real numbers here.
\<close>

datatype py_value = PNone | PInt int | PFloat real | PStr string | PContainer

text \<open>
  How \<open>float(s)\<close> and \<open>int(s)\<close> read a string is the interpreter's business, not this
  program's: both parsers are parameters, \<open>None\<close> standing for \<open>ValueError\<close>.
\<close>

record py_builtins =
  float_of_str :: "string \<Rightarrow> real option"
  int_of_str :: "string \<Rightarrow> int option"

definition py_float :: "py_builtins \<Rightarrow> py_value \<Rightarrow> py_exn + real" where
  "py_float py v =
     (case v of
        PNone \<Rightarrow> Inl TypeError
      | PInt i \<Rightarrow> Inr (of_int i)
      | PFloat r \<Rightarrow> Inr r
      | PStr s \<Rightarrow> (case float_of_str py s of None \<Rightarrow> Inl ValueError | Some r \<Rightarrow> Inr r)
      | PContainer \<Rightarrow> Inl TypeError)"

definition py_int :: "py_builtins \<Rightarrow> py_value \<Rightarrow> py_exn + int" where
  "py_int py v =
     (case v of
        PNone \<Rightarrow> Inl TypeError
      | PInt i \<Rightarrow> Inr i
      | PFloat r \<Rightarrow> Inr (if 0 \<le> r then \<lfloor>r\<rfloor> else \<lceil>r\<rceil>)
      | PStr s \<Rightarrow> (case int_of_str py s of None \<Rightarrow> Inl ValueError | Some i \<Rightarrow> Inr i)
      | PContainer \<Rightarrow> Inl TypeError)"

text \<open>The characters below 256 that \<open>str.strip()\<close> removes.\<close>

definition py_isspace :: "char \<Rightarrow> bool" where
  "py_isspace c =
     (let n = (of_char c :: nat)
      in (9 \<le> n \<and> n \<le> 13) \<or> (28 \<le> n \<and> n \<le> 32) \<or> n = 133 \<or> n = 160)"

text \<open>
  \<open>str(v).strip() == ""\<close>: only a string of whitespace is blank; the text of a number, of
  \<open>None\<close> or of a container never is.
\<close>

definition blank_after_strip :: "py_value \<Rightarrow> bool" where
  "blank_after_strip v = (case v of PStr s \<Rightarrow> list_all py_isspace s | _ \<Rightarrow> False)"

text \<open>\<open>str(n)\<close> for a natural number, \<open>s.zfill(w)\<close> for an unsigned numeral, \<open>s.upper()\<close> on ASCII.\<close>

definition digit_char :: "nat \<Rightarrow> char" where
  "digit_char d = char_of (48 + d)"

fun str_of_nat :: "nat \<Rightarrow> string" where
  "str_of_nat n =
     (if n < 10 then [digit_char n] else str_of_nat (n div 10) @ [digit_char (n mod 10)])"

definition zfill :: "nat \<Rightarrow> string \<Rightarrow> string" where
  "zfill w s = replicate (w - length s) (CHR ''0'') @ s"

definition upper_char :: "char \<Rightarrow> char" where
  "upper_char c =
     (if CHR ''a'' \<le> c \<and> c \<le> CHR ''z'' then char_of ((of_char c :: nat) - 32) else c)"

definition upper :: "string \<Rightarrow> string" where
  "upper s = map upper_char s"

text \<open>The format \<open>f"{x:.2f}%"\<close>.\<close>

definition format_2f_percent :: "real \<Rightarrow> string" where
  "format_2f_percent x =
     (let n = nat (round_half_even (\<bar>x\<bar> * 100))
      in (if x < 0 then ''-'' else []) @ str_of_nat (n div 100) @ ''.'' @
         zfill 2 (str_of_nat (n mod 100)) @ ''%'')"

subsection \<open>Schema\<close>

record department_row =
  d_dept_code :: string
  d_dept_name :: string

record student_row =
  s_student_id :: string
  s_name :: string
  s_dept_code :: string
  s_year :: int
  s_semester :: int
  s_email :: string
  s_program_type :: string
  s_duration_years :: int
  s_course_name :: string
  s_created_date :: string

record subject_row =
  sub_subject_id :: nat
  sub_subject_name :: string
  sub_subject_code :: string
  sub_year :: int
  sub_semester :: int
  sub_max_marks :: int

record mark_row =
  m_mark_id :: nat
  m_student_id :: string
  m_subject_code :: string
  m_marks :: real

record attendance_row =
  a_att_id :: nat
  a_student_id :: string
  a_month :: string
  a_classes_held :: int
  a_classes_attended :: int

text \<open>
  The database file: the five tables, and for each AUTOINCREMENT key the largest value
  ever handed out (SQLite keeps it in \<open>sqlite_sequence\<close>; the next key is one more, so a
  key is never used twice).
\<close>

record report_card_system =
  tbl_departments :: "department_row list"
  tbl_students :: "student_row list"
  tbl_subjects :: "subject_row list"
  tbl_marks :: "mark_row list"
  tbl_attendance :: "attendance_row list"
  seq_subjects :: nat
  seq_marks :: nat
  seq_attendance :: nat

text \<open>
  A connection works on its own copy of the tables until it commits; closing it without a
  commit throws the copy away. \<open>sqlite3.connect\<close> opens it with SQLite's default for
  foreign keys, which is not to enforce them, and no statement of the program issues
  \<open>PRAGMA foreign_keys = ON\<close>.
\<close>

record connection =
  foreign_keys :: bool
  tx :: report_card_system

definition connect :: "report_card_system \<Rightarrow> connection" where
  "connect self = \<lparr>foreign_keys = False, tx = self\<rparr>"

definition DEPARTMENTS :: "string list" where
  "DEPARTMENTS =
     [''B.A. Economics'', ''B.A. English'', ''B.A. Tamil'', ''B.Sc. Botany'',
      ''B.Sc. Chemistry'', ''B.Sc. Mathematics'', ''B.Sc. Physics'',
      ''B.Sc. Computer Science'', ''B.Sc. Marine Biology'', ''B.Com.'', ''B.Com. (CA)'',
      ''Other'']"

definition populate_default_departments :: "report_card_system \<Rightarrow> report_card_system" where
  "populate_default_departments self =
     self\<lparr>tbl_departments := tbl_departments self @
       map (\<lambda>(i, dept). \<lparr>d_dept_code = upper (take 3 dept) @ zfill 2 (str_of_nat (i + 1)),
                           d_dept_name = dept\<rparr>)
           (enumerate 0 DEPARTMENTS)\<rparr>"

text \<open>\<open>init_database\<close> on a file that does not exist yet.\<close>

definition init_database_web :: report_card_system where
  "init_database_web =
     (let self = \<lparr>tbl_departments = [], tbl_students = [], tbl_subjects = [], tbl_marks = [],
                   tbl_attendance = [], seq_subjects = 0, seq_marks = 0, seq_attendance = 0\<rparr>
      in if length (tbl_departments self) = 0 then populate_default_departments self
         else self)"

definition get_all_departments :: "report_card_system \<Rightarrow> department_row list" where
  "get_all_departments self = sort_key d_dept_name (tbl_departments self)"

subsection \<open>The statements of the upsert\<close>

definition insert_or_replace_student :: "connection \<Rightarrow> student_row \<Rightarrow> py_exn + connection" where
  "insert_or_replace_student conn row =
     (if \<not> (sqlite_int_ok (s_year row) \<and> sqlite_int_ok (s_semester row) \<and>
             sqlite_int_ok (s_duration_years row))
      then Inl OverflowError
      else if foreign_keys conn \<and>
              s_dept_code row \<notin> set (map d_dept_code (tbl_departments (tx conn)))
      then Inl IntegrityError
      else
        (let db = tx conn;
             replaced = s_student_id row \<in> set (map s_student_id (tbl_students db));
             cascade = foreign_keys conn \<and> replaced
         in Inr (conn\<lparr>tx := db
              \<lparr>tbl_students :=
                 filter (\<lambda>r. s_student_id r \<noteq> s_student_id row) (tbl_students db) @ [row],
               tbl_marks :=
                 (if cascade
                  then filter (\<lambda>m. m_student_id m \<noteq> s_student_id row) (tbl_marks db)
                  else tbl_marks db),
               tbl_attendance :=
                 (if cascade
                  then filter (\<lambda>a. a_student_id a \<noteq> s_student_id row) (tbl_attendance db)
                  else tbl_attendance db)\<rparr>\<rparr>)))"

definition delete_marks :: "connection \<Rightarrow> string \<Rightarrow> connection" where
  "delete_marks conn sid =
     conn\<lparr>tx := (tx conn)
       \<lparr>tbl_marks := filter (\<lambda>m. m_student_id m \<noteq> sid) (tbl_marks (tx conn))\<rparr>\<rparr>"

definition delete_attendance :: "connection \<Rightarrow> string \<Rightarrow> connection" where
  "delete_attendance conn sid =
     conn\<lparr>tx := (tx conn)
       \<lparr>tbl_attendance := filter (\<lambda>a. a_student_id a \<noteq> sid) (tbl_attendance (tx conn))\<rparr>\<rparr>"

definition insert_mark :: "connection \<Rightarrow> string \<Rightarrow> string \<Rightarrow> real \<Rightarrow> py_exn + connection" where
  "insert_mark conn sid code mk =
     (let db = tx conn
      in if (sid, code) \<in> set (map (\<lambda>m. (m_student_id m, m_subject_code m)) (tbl_marks db))
         then Inl IntegrityError
         else if foreign_keys conn \<and>
                 (sid \<notin> set (map s_student_id (tbl_students db)) \<or>
                  code \<notin> set (map sub_subject_code (tbl_subjects db)))
         then Inl IntegrityError
         else Inr (conn\<lparr>tx := db
                \<lparr>tbl_marks := tbl_marks db @
                   [\<lparr>m_mark_id = seq_marks db + 1, m_student_id = sid,
                     m_subject_code = code, m_marks = mk\<rparr>],
                 seq_marks := seq_marks db + 1\<rparr>\<rparr>))"

definition insert_attendance ::
  "connection \<Rightarrow> string \<Rightarrow> string \<Rightarrow> int \<Rightarrow> int \<Rightarrow> py_exn + connection" where
  "insert_attendance conn sid month h a =
     (let db = tx conn
      in if \<not> (sqlite_int_ok h \<and> sqlite_int_ok a) then Inl OverflowError
         else if (sid, month) \<in> set (map (\<lambda>r. (a_student_id r, a_month r)) (tbl_attendance db))
         then Inl IntegrityError
         else if foreign_keys conn \<and> sid \<notin> set (map s_student_id (tbl_students db))
         then Inl IntegrityError
         else Inr (conn\<lparr>tx := db
                \<lparr>tbl_attendance := tbl_attendance db @
                   [\<lparr>a_att_id = seq_attendance db + 1, a_student_id = sid, a_month = month,
                     a_classes_held = h, a_classes_attended = a\<rparr>],
                 seq_attendance := seq_attendance db + 1\<rparr>\<rparr>))"

subsection \<open>add\_or\_update\_student\<close>

text \<open>
  One entry of \<open>attendance_data\<close>: a dict in which either key may be missing. The two
  mappings of the payload are dicts, kept as association lists in insertion order.
\<close>

record attendance_entry =
  held :: "py_value option"
  attended :: "py_value option"

record payload =
  p_student_id :: string
  p_name :: string
  p_dept_name :: string
  p_year :: int
  p_semester :: int
  p_email :: string
  p_program_type :: string
  p_duration_years :: int
  p_course_name :: string
  p_marks_data :: "(string \<times> py_value) list"
  p_attendance_data :: "(string \<times> attendance_entry) list"

text \<open>\<open>data.get(key, default)\<close> on a field that may be missing.\<close>

definition dict_get :: "py_value option \<Rightarrow> py_value \<Rightarrow> py_value" where
  "dict_get field dflt = (case field of None \<Rightarrow> dflt | Some v \<Rightarrow> v)"

text \<open>
  \<open>next((d[0] for d in self.get_all_departments() if d[1] == dept_name), "OTH99")\<close>: the
  code of the first department with that name, and the sentinel when there is none.
\<close>

definition dept_code_of :: "department_row list \<Rightarrow> string \<Rightarrow> string" where
  "dept_code_of depts dept_name =
     (case find (\<lambda>d. d_dept_name d = dept_name) depts of
        Some d \<Rightarrow> d_dept_code d
      | None \<Rightarrow> ''OTH99'')"

text \<open>\<open>for code, marks in marks_data.items(): ...\<close>\<close>

fun insert_marks ::
  "py_builtins \<Rightarrow> connection \<Rightarrow> string \<Rightarrow> (string \<times> py_value) list \<Rightarrow> py_exn + connection" where
  "insert_marks py conn sid [] = Inr conn"
| "insert_marks py conn sid ((code, mk) # rest) =
     (if mk \<noteq> PNone \<and> \<not> blank_after_strip mk then
        (case py_float py mk of
           Inl e \<Rightarrow> Inl e
         | Inr f \<Rightarrow>
             (case insert_mark conn sid code f of
                Inl e \<Rightarrow> Inl e
              | Inr conn' \<Rightarrow> insert_marks py conn' sid rest))
      else insert_marks py conn sid rest)"

text \<open>\<open>for month, data in attendance_data.items(): ...\<close>\<close>

fun insert_attendances ::
  "py_builtins \<Rightarrow> connection \<Rightarrow> string \<Rightarrow> (string \<times> attendance_entry) list
     \<Rightarrow> py_exn + connection" where
  "insert_attendances py conn sid [] = Inr conn"
| "insert_attendances py conn sid ((month, data) # rest) =
     (case py_int py (dict_get (held data) (PInt 0)) of
        Inl e \<Rightarrow> Inl e
      | Inr h \<Rightarrow>
          (case py_int py (dict_get (attended data) (PInt 0)) of
             Inl e \<Rightarrow> Inl e
           | Inr a \<Rightarrow>
               if h > 0 then
                 (case insert_attendance conn sid month h a of
                    Inl e \<Rightarrow> Inl e
                  | Inr conn' \<Rightarrow> insert_attendances py conn' sid rest)
               else insert_attendances py conn sid rest))"

text \<open>The body of the \<open>try\<close> block up to, not including, the commit.\<close>

definition upsert_statements ::
  "py_builtins \<Rightarrow> string \<Rightarrow> connection \<Rightarrow> department_row list \<Rightarrow> payload
     \<Rightarrow> py_exn + connection" where
  "upsert_statements py today conn depts p =
     (let dept_code = dept_code_of depts (p_dept_name p)
      in case insert_or_replace_student conn
                \<lparr>s_student_id = p_student_id p, s_name = p_name p, s_dept_code = dept_code,
                 s_year = p_year p, s_semester = p_semester p, s_email = p_email p,
                 s_program_type = p_program_type p,
                 s_duration_years = p_duration_years p, s_course_name = p_course_name p,
                 s_created_date = today\<rparr> of
           Inl e \<Rightarrow> Inl e
         | Inr c1 \<Rightarrow>
             (let c2 = delete_marks c1 (p_student_id p);
                  c3 = delete_attendance c2 (p_student_id p)
              in case insert_marks py c3 (p_student_id p) (p_marks_data p) of
                   Inl e \<Rightarrow> Inl e
                 | Inr c4 \<Rightarrow>
                     insert_attendances py c4 (p_student_id p) (p_attendance_data p)))"

datatype save_message =
    Saved_successfully string
  | Already_exists_or_corrupt string
  | Database_error_during_save py_exn

text \<open>
  \<open>today\<close> is the date the clock gives at the call. On an exception the connection is
  closed without a commit, so the file stays as it was.
\<close>

definition run_upsert ::
  "py_builtins \<Rightarrow> string \<Rightarrow> connection \<Rightarrow> report_card_system \<Rightarrow> payload
     \<Rightarrow> (bool \<times> save_message) \<times> report_card_system" where
  "run_upsert py today conn self p =
     (case upsert_statements py today conn (get_all_departments self) p of
        Inr conn' \<Rightarrow> ((True, Saved_successfully (p_student_id p)), tx conn')
      | Inl IntegrityError \<Rightarrow> ((False, Already_exists_or_corrupt (p_student_id p)), self)
      | Inl e \<Rightarrow> ((False, Database_error_during_save e), self))"

definition add_or_update_student ::
  "py_builtins \<Rightarrow> string \<Rightarrow> report_card_system \<Rightarrow> payload
     \<Rightarrow> (bool \<times> save_message) \<times> report_card_system" where
  "add_or_update_student py today self p = run_upsert py today (connect self) self p"

definition add_subject ::
  "report_card_system \<Rightarrow> string \<Rightarrow> string \<Rightarrow> int \<Rightarrow> int \<Rightarrow> int
     \<Rightarrow> bool \<times> report_card_system" where
  "add_subject self nm code yr sem max_marks =
     (if \<not> (sqlite_int_ok yr \<and> sqlite_int_ok sem \<and> sqlite_int_ok max_marks)
      then (False, self)
      else if code \<in> set (map sub_subject_code (tbl_subjects self)) then (False, self)
      else (True,
        self\<lparr>tbl_subjects := tbl_subjects self @
               [\<lparr>sub_subject_id = seq_subjects self + 1, sub_subject_name = nm,
                 sub_subject_code = code, sub_year = yr, sub_semester = sem,
                 sub_max_marks = max_marks\<rparr>],
             seq_subjects := seq_subjects self + 1\<rparr>))"

subsection \<open>Reading: the two projections and the grade\<close>

text \<open>\<open>FROM students s JOIN departments d ON s.dept_code = d.dept_code\<close>\<close>

definition students_join_departments ::
  "report_card_system \<Rightarrow> (student_row \<times> department_row) list" where
  "students_join_departments self =
     concat (map (\<lambda>s. map (\<lambda>d. (s, d))
                        (filter (\<lambda>d. s_dept_code s = d_dept_code d) (tbl_departments self)))
                 (tbl_students self))"

text \<open>\<open>FROM marks m JOIN subjects s ON m.subject_code = s.subject_code WHERE m.student_id = ?\<close>\<close>

definition marks_join_subjects ::
  "report_card_system \<Rightarrow> string \<Rightarrow> (mark_row \<times> subject_row) list" where
  "marks_join_subjects self sid =
     concat (map (\<lambda>m. map (\<lambda>s. (m, s))
                        (filter (\<lambda>s. m_subject_code m = sub_subject_code s) (tbl_subjects self)))
                 (filter (\<lambda>m. m_student_id m = sid) (tbl_marks self)))"

record student_dict =
  sd_student_id :: string
  sd_name :: string
  sd_dept_code :: string
  sd_year :: int
  sd_semester :: int
  sd_email :: string
  sd_program_type :: string
  sd_duration_years :: int
  sd_course_name :: string
  sd_dept_name :: string

record marks_dict =
  md_subject_code :: string
  md_subject_name :: string
  md_max_marks :: int
  md_marks :: real

record attendance_dict =
  ad_month :: string
  ad_classes_held :: int
  ad_classes_attended :: int

text \<open>The \<open>CASE month WHEN ... END\<close> of the ORDER BY; a month it does not list gives NULL.\<close>

definition month_rank :: "string \<Rightarrow> nat option" where
  "month_rank m =
     (if m = ''Jan'' then Some 1 else if m = ''Feb'' then Some 2
      else if m = ''Mar'' then Some 3 else if m = ''Apr'' then Some 4
      else if m = ''May'' then Some 5 else if m = ''Jun'' then Some 6
      else if m = ''Jul'' then Some 7 else if m = ''Aug'' then Some 8
      else if m = ''Sep'' then Some 9 else if m = ''Oct'' then Some 10
      else if m = ''Nov'' then Some 11 else if m = ''Dec'' then Some 12
      else None)"

text \<open>The result \<open>(None, None, None)\<close> is \<open>None\<close> here.\<close>

definition get_student_details_and_data ::
  "report_card_system \<Rightarrow> string
     \<Rightarrow> (student_dict \<times> marks_dict list \<times> attendance_dict list) option" where
  "get_student_details_and_data self sid =
     (case filter (\<lambda>(s, d). s_student_id s = sid) (students_join_departments self) of
        [] \<Rightarrow> None
      | (s, d) # _ \<Rightarrow>
          Some
            (\<lparr>sd_student_id = s_student_id s, sd_name = s_name s,
              sd_dept_code = s_dept_code s, sd_year = s_year s,
              sd_semester = s_semester s, sd_email = s_email s,
              sd_program_type = s_program_type s,
              sd_duration_years = s_duration_years s,
              sd_course_name = s_course_name s, sd_dept_name = d_dept_name d\<rparr>,
             map (\<lambda>(m, sub). \<lparr>md_subject_code = sub_subject_code sub,
                                md_subject_name = sub_subject_name sub,
                                md_max_marks = sub_max_marks sub, md_marks = m_marks m\<rparr>)
                 (marks_join_subjects self sid),
             map (\<lambda>a. \<lparr>ad_month = a_month a, ad_classes_held = a_classes_held a,
                         ad_classes_attended = a_classes_attended a\<rparr>)
                 (sort_key (\<lambda>a. month_rank (a_month a))
                    (filter (\<lambda>a. a_student_id a = sid) (tbl_attendance self)))))"

record summary =
  sm_student_id :: string
  sm_name :: string
  sm_dept_name :: string
  sm_year :: int
  sm_semester :: int
  sm_email :: string
  sm_program_type :: string
  sm_duration_years :: int
  sm_course_name :: string
  sm_att_percent :: string
  sm_mark_percent :: string

text \<open>
  The two aggregates of one student. \<open>SUM\<close> over no rows is NULL, which the code replaces
  by \<open>(0, 0)\<close>; each division stands under its guard.
\<close>

definition att_percent :: "report_card_system \<Rightarrow> string \<Rightarrow> real" where
  "att_percent self sid =
     (let rows = filter (\<lambda>a. a_student_id a = sid) (tbl_attendance self);
          (h, a) = (if rows \<noteq> []
                    then (sum_list (map a_classes_held rows),
                          sum_list (map a_classes_attended rows))
                    else (0, 0))
      in if h > 0 then real_of_int a / real_of_int h * 100 else 0)"

definition mark_percent :: "report_card_system \<Rightarrow> string \<Rightarrow> real" where
  "mark_percent self sid =
     (let rows = marks_join_subjects self sid;
          (total_marks, total_max) =
            (if rows \<noteq> []
             then (sum_list (map (\<lambda>(m, s). m_marks m) rows),
                   sum_list (map (\<lambda>(m, s). sub_max_marks s) rows))
             else (0, 0))
      in if total_max > 0 then total_marks / real_of_int total_max * 100 else 0)"

definition get_all_students_summary :: "report_card_system \<Rightarrow> summary list" where
  "get_all_students_summary self =
     map (\<lambda>(s, d).
            \<lparr>sm_student_id = s_student_id s, sm_name = s_name s,
             sm_dept_name = d_dept_name d, sm_year = s_year s,
             sm_semester = s_semester s, sm_email = s_email s,
             sm_program_type = s_program_type s,
             sm_duration_years = s_duration_years s, sm_course_name = s_course_name s,
             sm_att_percent = format_2f_percent (att_percent self (s_student_id s)),
             sm_mark_percent = format_2f_percent (mark_percent self (s_student_id s))\<rparr>)
         (sort_key (\<lambda>(s, d). (s_dept_code s, s_year s, s_student_id s))
            (students_join_departments self))"

definition calculate_grade :: "real \<Rightarrow> string" where
  "calculate_grade pct =
     (if pct \<ge> 90 then ''O''
      else if pct \<ge> 80 then ''A+''
      else if pct \<ge> 70 then ''A''
      else if pct \<ge> 60 then ''B+''
      else if pct \<ge> 50 then ''B''
      else if pct \<ge> 40 then ''C''
      else ''F'')"

text \<open>
  The states of the web database: the initialised file, and whatever \<open>add_subject\<close> and
  \<open>add_or_update_student\<close> make of a state. No operation of the program writes the
  departments table after its initialisation.
\<close>

inductive reachable_web :: "report_card_system \<Rightarrow> bool" where
  init_web: "reachable_web init_database_web"
| subject: "reachable_web s \<Longrightarrow> reachable_web (snd (add_subject s nm code yr sem max_marks))"
| upsert: "reachable_web s \<Longrightarrow> reachable_web (snd (add_or_update_student py today s p))"

section \<open>Definitions used to state the properties\<close>

subsection \<open>Desktop variant\<close>









subsection \<open>Web variant\<close>

text \<open>A marks entry is stored when its value is present and non-blank.\<close>

definition mark_present :: "py_value \<Rightarrow> bool" where
  "mark_present v = (v \<noteq> PNone \<and> \<not> blank_after_strip v)"

text \<open>A month is stored when its \<open>held\<close> value reads as an int greater than zero.\<close>

definition month_reported :: "py_builtins \<Rightarrow> attendance_entry \<Rightarrow> bool" where
  "month_reported py d =
     (case py_int py (dict_get (held d) (PInt 0)) of Inl e \<Rightarrow> False | Inr h \<Rightarrow> h > 0)"

text \<open>A stored Mark row, or Attendance row, answers one entry of the payload.\<close>

definition mark_row_of ::
  "py_builtins \<Rightarrow> string \<Rightarrow> mark_row \<Rightarrow> string \<times> py_value \<Rightarrow> bool" where
  "mark_row_of py sid m entry =
     (m_student_id m = sid \<and> m_subject_code m = fst entry \<and>
      py_float py (snd entry) = Inr (m_marks m))"

definition attendance_row_of ::
  "py_builtins \<Rightarrow> string \<Rightarrow> attendance_row \<Rightarrow> string \<times> attendance_entry \<Rightarrow> bool" where
  "attendance_row_of py sid a entry =
     (a_student_id a = sid \<and> a_month a = fst entry \<and>
      py_int py (dict_get (held (snd entry)) (PInt 0)) = Inr (a_classes_held a) \<and>
      py_int py (dict_get (attended (snd entry)) (PInt 0)) = Inr (a_classes_attended a))"

text \<open>The rows of one student.\<close>

definition marks_of :: "report_card_system \<Rightarrow> string \<Rightarrow> mark_row list" where
  "marks_of self sid = filter (\<lambda>m. m_student_id m = sid) (tbl_marks self)"

definition attendance_of :: "report_card_system \<Rightarrow> string \<Rightarrow> attendance_row list" where
  "attendance_of self sid = filter (\<lambda>a. a_student_id a = sid) (tbl_attendance self)"

text \<open>A row without its AUTOINCREMENT key.\<close>

definition stored_mark :: "mark_row \<Rightarrow> string \<times> string \<times> real" where
  "stored_mark m = (m_student_id m, m_subject_code m, m_marks m)"

definition stored_attendance :: "attendance_row \<Rightarrow> string \<times> string \<times> int \<times> int" where
  "stored_attendance a = (a_student_id a, a_month a, a_classes_held a, a_classes_attended a)"

text \<open>
  The payloads that the upsert saves: every int fits an SQLite INTEGER, every stored value
  reads as a number, and no subject code or month is stored twice.
\<close>

definition marks_entry_ok :: "py_builtins \<Rightarrow> string \<times> py_value \<Rightarrow> bool" where
  "marks_entry_ok py entry =
     (if mark_present (snd entry)
      then (case py_float py (snd entry) of Inl e \<Rightarrow> False | Inr f \<Rightarrow> True)
      else True)"

definition attendance_entry_ok :: "py_builtins \<Rightarrow> string \<times> attendance_entry \<Rightarrow> bool" where
  "attendance_entry_ok py entry =
     (case py_int py (dict_get (held (snd entry)) (PInt 0)) of
        Inl e \<Rightarrow> False
      | Inr h \<Rightarrow>
          (case py_int py (dict_get (attended (snd entry)) (PInt 0)) of
             Inl e \<Rightarrow> False
           | Inr a \<Rightarrow> if h > 0 then sqlite_int_ok h \<and> sqlite_int_ok a else True))"

definition valid_payload :: "py_builtins \<Rightarrow> payload \<Rightarrow> bool" where
  "valid_payload py p =
     (sqlite_int_ok (p_year p) \<and> sqlite_int_ok (p_semester p) \<and>
      sqlite_int_ok (p_duration_years p) \<and>
      list_all (marks_entry_ok py) (p_marks_data p) \<and>
      distinct (map fst (filter (\<lambda>entry. mark_present (snd entry)) (p_marks_data p))) \<and>
      list_all (attendance_entry_ok py) (p_attendance_data p) \<and>
      distinct (map fst (filter (\<lambda>entry. month_reported py (snd entry))
                           (p_attendance_data p))))"

text \<open>Builtins that read no string as a number, for payloads that hold numbers only.\<close>

definition no_parsers :: py_builtins where
  "no_parsers = \<lparr>float_of_str = (\<lambda>s. None), int_of_str = (\<lambda>s. None)\<rparr>"

text \<open>
  The scenario: two subjects with \<open>max_marks = 100\<close>, and student S1 submitted with marks
  80 and 70 and with 18 of 20 and 10 of 20 classes attended.
\<close>

definition two_subjects_db :: report_card_system where
  "two_subjects_db =
     snd (add_subject (snd (add_subject init_database_web ''Mathematics'' ''MTH01'' 1 1 100))
            ''Physics'' ''PHY01'' 1 1 100)"

definition s1_payload :: payload where
  "s1_payload =
     \<lparr>p_student_id = ''S1'', p_name = ''Asha'', p_dept_name = ''B.Sc. Mathematics'',
      p_year = 1, p_semester = 1, p_email = ''asha@example.org'', p_program_type = ''UG'',
      p_duration_years = 3, p_course_name = ''Mathematics'',
      p_marks_data = [(''MTH01'', PInt 80), (''PHY01'', PInt 70)],
      p_attendance_data =
        [(''Jan'', \<lparr>held = Some (PInt 20), attended = Some (PInt 18)\<rparr>),
         (''Feb'', \<lparr>held = Some (PInt 20), attended = Some (PInt 10)\<rparr>)]\<rparr>"

definition s1_db :: report_card_system where
  "s1_db = snd (add_or_update_student no_parsers ''2024-01-01'' two_subjects_db s1_payload)"

text \<open>What the upsert leaves alone, and the connection it works on.\<close>

definition only_marks_changed :: "report_card_system \<Rightarrow> report_card_system \<Rightarrow> bool" where
  "only_marks_changed a b =
     (tbl_departments b = tbl_departments a \<and> tbl_students b = tbl_students a \<and>
      tbl_subjects b = tbl_subjects a \<and> tbl_attendance b = tbl_attendance a \<and>
      seq_subjects b = seq_subjects a \<and> seq_attendance b = seq_attendance a)"

definition only_attendance_changed :: "report_card_system \<Rightarrow> report_card_system \<Rightarrow> bool" where
  "only_attendance_changed a b =
     (tbl_departments b = tbl_departments a \<and> tbl_students b = tbl_students a \<and>
      tbl_subjects b = tbl_subjects a \<and> tbl_marks b = tbl_marks a \<and>
      seq_subjects b = seq_subjects a \<and> seq_marks b = seq_marks a)"

definition new_student_row :: "string \<Rightarrow> report_card_system \<Rightarrow> payload \<Rightarrow> student_row" where
  "new_student_row today self p =
     \<lparr>s_student_id = p_student_id p, s_name = p_name p,
      s_dept_code = dept_code_of (get_all_departments self) (p_dept_name p),
      s_year = p_year p, s_semester = p_semester p, s_email = p_email p,
      s_program_type = p_program_type p,
      s_duration_years = p_duration_years p, s_course_name = p_course_name p,
      s_created_date = today\<rparr>"

definition payload_ints_ok :: "payload \<Rightarrow> bool" where
  "payload_ints_ok p =
     (sqlite_int_ok (p_year p) \<and> sqlite_int_ok (p_semester p) \<and>
      sqlite_int_ok (p_duration_years p))"

text \<open>The connection after the INSERT OR REPLACE and the two DELETE statements.\<close>

definition cleared :: "string \<Rightarrow> report_card_system \<Rightarrow> payload \<Rightarrow> connection" where
  "cleared today self p =
     \<lparr>foreign_keys = False,
      tx = self
        \<lparr>tbl_students :=
           filter (\<lambda>r. s_student_id r \<noteq> p_student_id p) (tbl_students self) @
             [new_student_row today self p],
         tbl_marks := filter (\<lambda>m. m_student_id m \<noteq> p_student_id p) (tbl_marks self),
         tbl_attendance :=
           filter (\<lambda>a. a_student_id a \<noteq> p_student_id p) (tbl_attendance self)\<rparr>\<rparr>"

definition c7_payload :: payload where
  "c7_payload =
     s1_payload
       \<lparr>p_marks_data :=
          [(''MTH01'', PInt 80), (''CHM01'', PStr ''  ''), (''PHY01'', PFloat 70),
           (''BIO01'', PNone)],
        p_attendance_data :=
          [(''Jan'', \<lparr>held = Some (PInt 20), attended = Some (PInt 18)\<rparr>),
           (''Mar'', \<lparr>held = Some (PInt 0), attended = Some (PInt 0)\<rparr>),
           (''Feb'', \<lparr>held = Some (PInt 20), attended = Some (PInt 10)\<rparr>),
           (''Apr'', \<lparr>held = None, attended = Some (PInt 3)\<rparr>)]\<rparr>"

definition c7_db :: report_card_system where
  "c7_db = snd (add_or_update_student no_parsers ''2024-01-01'' two_subjects_db c7_payload)"

section \<open>Properties of the desktop variant\<close>

subsection \<open>The retry loop\<close>



subsection \<open>Status tiers\<close>

text \<open>
  C4. For every percentage \<open>p\<close>, \<open>get_status\<close> returns exactly one of Good, Warning and
  Critical, with inclusive lower boundaries at 75 and 60: \<open>p \<ge> 75\<close> gives Good,
  \<open>60 \<le> p < 75\<close> gives Warning and \<open>p < 60\<close> gives Critical.
\<close>

theorem get_status_tiers:
  "(75 \<le> p \<longrightarrow> get_status self p = ''Good'') \<and>
   (60 \<le> p \<and> p < 75 \<longrightarrow> get_status self p = ''Warning'') \<and>
   (p < 60 \<longrightarrow> get_status self p = ''Critical'') \<and>
   get_status self p \<in> {''Good'', ''Warning'', ''Critical''}"
  by (simp add: get_status_def)

theorem get_status_tiers_witness:
  "get_status init_database 75 = ''Good'' \<and>
   get_status init_database (7499 / 100) = ''Warning'' \<and>
   get_status init_database 60 = ''Warning'' \<and>
   get_status init_database (5999 / 100) = ''Critical''"
  using get_status_tiers [of 75 init_database]
    get_status_tiers [of "7499 / 100" init_database]
    get_status_tiers [of 60 init_database]
    get_status_tiers [of "5999 / 100" init_database]
  by simp

subsection \<open>Percentage\<close>





subsection \<open>The threshold setting\<close>

text \<open>
  C9. The status derivation never consults the stored \<open>threshold_percentage\<close>: two runs
  that differ only in the threshold saved by \<open>save_email_settings\<close> get the same label
  from \<open>get_status\<close> for every percentage.
\<close>

theorem get_status_ignores_threshold:
  "get_status (snd (save_email_settings db self se sp hod t1)) p =
   get_status (snd (save_email_settings db self se sp hod t2)) p"
  by (simp add: get_status_def)

subsection \<open>The consistency invariant\<close>


















section \<open>Properties of the web variant\<close>

lemma find_filter: "find P xs = (case filter P xs of [] \<Rightarrow> None | x # _ \<Rightarrow> Some x)"
  by (induction xs) auto

lemma find_sort_key:
  "find (\<lambda>x. f x = k) (sort_key f xs) = find (\<lambda>x. f x = k) xs"
  by (simp add: find_filter sort_key_stable)

lemma department_lookup:
  "find (\<lambda>d. d_dept_name d = n) (get_all_departments self) =
   find (\<lambda>d. d_dept_name d = n) (tbl_departments self)"
  unfolding get_all_departments_def by (rule find_sort_key)

lemma str_of_nat_small: "n < 10 \<Longrightarrow> str_of_nat n = [digit_char n]"
  by simp

lemma init_departments:
  "tbl_departments init_database_web =
     [\<lparr>d_dept_code = ''B.A01'', d_dept_name = ''B.A. Economics''\<rparr>,
      \<lparr>d_dept_code = ''B.A02'', d_dept_name = ''B.A. English''\<rparr>,
      \<lparr>d_dept_code = ''B.A03'', d_dept_name = ''B.A. Tamil''\<rparr>,
      \<lparr>d_dept_code = ''B.S04'', d_dept_name = ''B.Sc. Botany''\<rparr>,
      \<lparr>d_dept_code = ''B.S05'', d_dept_name = ''B.Sc. Chemistry''\<rparr>,
      \<lparr>d_dept_code = ''B.S06'', d_dept_name = ''B.Sc. Mathematics''\<rparr>,
      \<lparr>d_dept_code = ''B.S07'', d_dept_name = ''B.Sc. Physics''\<rparr>,
      \<lparr>d_dept_code = ''B.S08'', d_dept_name = ''B.Sc. Computer Science''\<rparr>,
      \<lparr>d_dept_code = ''B.S09'', d_dept_name = ''B.Sc. Marine Biology''\<rparr>,
      \<lparr>d_dept_code = ''B.C10'', d_dept_name = ''B.Com.''\<rparr>,
      \<lparr>d_dept_code = ''B.C11'', d_dept_name = ''B.Com. (CA)''\<rparr>,
      \<lparr>d_dept_code = ''OTH12'', d_dept_name = ''Other''\<rparr>]"
  by code_simp

lemma insert_mark_Inr:
  assumes "insert_mark conn sid code mk = Inr conn'"
  shows "conn' = conn\<lparr>tx := (tx conn)
           \<lparr>tbl_marks := tbl_marks (tx conn) @
              [\<lparr>m_mark_id = seq_marks (tx conn) + 1, m_student_id = sid,
                m_subject_code = code, m_marks = mk\<rparr>],
            seq_marks := seq_marks (tx conn) + 1\<rparr>\<rparr>"
  using assms by (simp add: insert_mark_def Let_def split: if_splits)

lemma insert_mark_unique:
  assumes "insert_mark conn sid code mk = Inr conn'"
  shows "(sid, code) \<notin> set (map (\<lambda>m. (m_student_id m, m_subject_code m)) (tbl_marks (tx conn)))"
  using assms by (simp add: insert_mark_def Let_def split: if_splits)

lemma insert_mark_no_fk:
  assumes "\<not> foreign_keys conn"
    and "(sid, code) \<notin> set (map (\<lambda>m. (m_student_id m, m_subject_code m)) (tbl_marks (tx conn)))"
  shows "\<exists>conn'. insert_mark conn sid code mk = Inr conn'"
  using assms by (simp add: insert_mark_def Let_def)

lemma insert_marks_Inr:
  assumes "insert_marks py conn sid xs = Inr conn'"
  shows "\<exists>new. tbl_marks (tx conn') = tbl_marks (tx conn) @ new \<and>
               list_all2 (mark_row_of py sid) new
                 (filter (\<lambda>entry. mark_present (snd entry)) xs)"
  using assms
proof (induction xs arbitrary: conn)
  case Nil
  then show ?case by simp
next
  case (Cons x xs)
  obtain code v where x: "x = (code, v)" by (cases x)
  show ?case
  proof (cases "mark_present v")
    case False
    with Cons.prems x have "insert_marks py conn sid xs = Inr conn'"
      by (simp add: mark_present_def split: if_splits)
    from Cons.IH [OF this] False x show ?thesis by simp
  next
    case True
    with Cons.prems x obtain f c1 where
      f: "py_float py v = Inr f" and c1: "insert_mark conn sid code f = Inr c1"
      and rest: "insert_marks py c1 sid xs = Inr conn'"
      by (auto simp: mark_present_def split: sum.splits if_splits)
    let ?row = "\<lparr>m_mark_id = seq_marks (tx conn) + 1, m_student_id = sid,
                 m_subject_code = code, m_marks = f\<rparr>"
    have t1: "tbl_marks (tx c1) = tbl_marks (tx conn) @ [?row]"
      using insert_mark_Inr [OF c1] by simp
    from Cons.IH [OF rest] obtain new where
      new: "tbl_marks (tx conn') = tbl_marks (tx c1) @ new"
      and rel: "list_all2 (mark_row_of py sid) new
                  (filter (\<lambda>entry. mark_present (snd entry)) xs)"
      by blast
    have "mark_row_of py sid ?row (code, v)"
      using f by (simp add: mark_row_of_def)
    with rel have "list_all2 (mark_row_of py sid) (?row # new)
                     (filter (\<lambda>entry. mark_present (snd entry)) (x # xs))"
      using True x by simp
    moreover have "tbl_marks (tx conn') = tbl_marks (tx conn) @ (?row # new)"
      using new t1 by simp
    ultimately show ?thesis by blast
  qed
qed

lemma only_marks_changed_refl: "only_marks_changed a a"
  by (simp add: only_marks_changed_def)

lemma only_marks_changed_trans:
  "only_marks_changed a b \<Longrightarrow> only_marks_changed b c \<Longrightarrow> only_marks_changed a c"
  by (simp add: only_marks_changed_def)

lemma insert_marks_frame:
  assumes "insert_marks py conn sid xs = Inr conn'"
  shows "only_marks_changed (tx conn) (tx conn') \<and> foreign_keys conn' = foreign_keys conn"
  using assms
proof (induction xs arbitrary: conn)
  case Nil
  then show ?case by (simp add: only_marks_changed_refl)
next
  case (Cons x xs)
  obtain code v where x: "x = (code, v)" by (cases x)
  show ?case
  proof (cases "mark_present v")
    case False
    with Cons.prems x have "insert_marks py conn sid xs = Inr conn'"
      by (simp add: mark_present_def split: if_splits)
    from Cons.IH [OF this] show ?thesis .
  next
    case True
    with Cons.prems x obtain f c1 where
      c1: "insert_mark conn sid code f = Inr c1"
      and rest: "insert_marks py c1 sid xs = Inr conn'"
      by (auto simp: mark_present_def split: sum.splits if_splits)
    have "only_marks_changed (tx conn) (tx c1) \<and> foreign_keys c1 = foreign_keys conn"
      using insert_mark_Inr [OF c1] by (simp add: only_marks_changed_def)
    with Cons.IH [OF rest] show ?thesis
      using only_marks_changed_trans by metis
  qed
qed

lemma insert_marks_ok_iff:
  assumes "\<not> foreign_keys conn"
  shows "(\<exists>conn'. insert_marks py conn sid xs = Inr conn') \<longleftrightarrow>
         (list_all (marks_entry_ok py) xs \<and>
          distinct (map fst (filter (\<lambda>entry. mark_present (snd entry)) xs)) \<and>
          (\<forall>entry \<in> set (filter (\<lambda>entry. mark_present (snd entry)) xs).
             (sid, fst entry) \<notin>
               set (map (\<lambda>m. (m_student_id m, m_subject_code m)) (tbl_marks (tx conn)))))"
  using assms
proof (induction xs arbitrary: conn)
  case Nil
  then show ?case by simp
next
  case (Cons x xs)
  obtain code v where x: "x = (code, v)" by (cases x)
  let ?keys = "\<lambda>c. set (map (\<lambda>m. (m_student_id m, m_subject_code m)) (tbl_marks (tx c)))"
  let ?present = "\<lambda>entry :: string \<times> py_value. mark_present (snd entry)"
  show ?case
  proof (cases "mark_present v")
    case False
    then have step: "insert_marks py conn sid (x # xs) = insert_marks py conn sid xs"
      using x by (auto simp: mark_present_def)
    have ok: "marks_entry_ok py x"
      using False x by (simp add: marks_entry_ok_def)
    show ?thesis
      unfolding step using Cons.IH [OF Cons.prems] ok False x by simp
  next
    case True
    show ?thesis
    proof (cases "py_float py v")
      case (Inl e)
      then have "insert_marks py conn sid (x # xs) = Inl e"
        using True x by (simp add: mark_present_def)
      moreover have "\<not> marks_entry_ok py x"
        using True Inl x by (simp add: marks_entry_ok_def)
      ultimately show ?thesis by simp
    next
      case (Inr f)
      have ok: "marks_entry_ok py x"
        using True Inr x by (simp add: marks_entry_ok_def)
      show ?thesis
      proof (cases "(sid, code) \<in> ?keys conn")
        case dup: True
        then have "insert_mark conn sid code f = Inl IntegrityError"
          by (simp add: insert_mark_def Let_def)
        then have "insert_marks py conn sid (x # xs) = Inl IntegrityError"
          using True Inr x by (simp add: mark_present_def)
        moreover have "\<not> (\<forall>entry \<in> set (filter ?present (x # xs)).
                           (sid, fst entry) \<notin> ?keys conn)"
          using dup True x by auto
        ultimately show ?thesis by simp
      next
        case fresh: False
        obtain c1 where c1: "insert_mark conn sid code f = Inr c1"
          using insert_mark_no_fk [OF Cons.prems fresh] by blast
        have step: "insert_marks py conn sid (x # xs) = insert_marks py c1 sid xs"
          using True Inr c1 x by (simp add: mark_present_def)
        have fk: "\<not> foreign_keys c1"
          using insert_mark_Inr [OF c1] Cons.prems by simp
        have keys: "?keys c1 = insert (sid, code) (?keys conn)"
          using insert_mark_Inr [OF c1] by simp
        have "(\<forall>entry \<in> set (filter ?present xs). (sid, fst entry) \<notin> ?keys c1) \<longleftrightarrow>
              (code \<notin> set (map fst (filter ?present xs)) \<and>
               (\<forall>entry \<in> set (filter ?present xs). (sid, fst entry) \<notin> ?keys conn))"
          unfolding keys by force
        then show ?thesis
          unfolding step Cons.IH [OF fk] using ok True fresh x by auto
      qed
    qed
  qed
qed

lemma only_attendance_changed_refl: "only_attendance_changed a a"
  by (simp add: only_attendance_changed_def)

lemma only_attendance_changed_trans:
  "only_attendance_changed a b \<Longrightarrow> only_attendance_changed b c \<Longrightarrow>
   only_attendance_changed a c"
  by (simp add: only_attendance_changed_def)

lemma insert_attendance_Inr:
  assumes "insert_attendance conn sid month h a = Inr conn'"
  shows "conn' = conn\<lparr>tx := (tx conn)
           \<lparr>tbl_attendance := tbl_attendance (tx conn) @
              [\<lparr>a_att_id = seq_attendance (tx conn) + 1, a_student_id = sid,
                a_month = month, a_classes_held = h, a_classes_attended = a\<rparr>],
            seq_attendance := seq_attendance (tx conn) + 1\<rparr>\<rparr>"
  using assms by (simp add: insert_attendance_def Let_def split: if_splits)

lemma insert_attendance_no_fk:
  assumes "\<not> foreign_keys conn" and "sqlite_int_ok h" and "sqlite_int_ok a"
    and "(sid, month) \<notin> set (map (\<lambda>r. (a_student_id r, a_month r)) (tbl_attendance (tx conn)))"
  shows "\<exists>conn'. insert_attendance conn sid month h a = Inr conn'"
  using assms by (simp add: insert_attendance_def Let_def)

text \<open>One turn of the loop, by what the two \<open>int(...)\<close> calls give.\<close>

lemma insert_attendances_step_held_error:
  assumes "py_int py (dict_get (held d) (PInt 0)) = Inl e"
  shows "insert_attendances py conn sid ((month, d) # xs) = Inl e"
  using assms by simp

lemma insert_attendances_step_attended_error:
  assumes "py_int py (dict_get (held d) (PInt 0)) = Inr h"
    and "py_int py (dict_get (attended d) (PInt 0)) = Inl e"
  shows "insert_attendances py conn sid ((month, d) # xs) = Inl e"
  using assms by simp

lemma insert_attendances_step_skip:
  assumes "py_int py (dict_get (held d) (PInt 0)) = Inr h"
    and "py_int py (dict_get (attended d) (PInt 0)) = Inr a"
    and "\<not> h > 0"
  shows "insert_attendances py conn sid ((month, d) # xs) = insert_attendances py conn sid xs"
  using assms by simp

lemma insert_attendances_step_insert:
  assumes "py_int py (dict_get (held d) (PInt 0)) = Inr h"
    and "py_int py (dict_get (attended d) (PInt 0)) = Inr a"
    and "h > 0"
  shows "insert_attendances py conn sid ((month, d) # xs) =
           (case insert_attendance conn sid month h a of
              Inl e \<Rightarrow> Inl e
            | Inr conn' \<Rightarrow> insert_attendances py conn' sid xs)"
  using assms by simp

lemma insert_attendances_Inr:
  assumes "insert_attendances py conn sid xs = Inr conn'"
  shows "(\<exists>new. tbl_attendance (tx conn') = tbl_attendance (tx conn) @ new \<and>
                list_all2 (attendance_row_of py sid) new
                  (filter (\<lambda>entry. month_reported py (snd entry)) xs)) \<and>
         only_attendance_changed (tx conn) (tx conn') \<and>
         foreign_keys conn' = foreign_keys conn"
  using assms
proof (induction xs arbitrary: conn)
  case Nil
  then show ?case by (simp add: only_attendance_changed_refl)
next
  case (Cons x xs)
  obtain month d where x: "x = (month, d)" by (cases x)
  from Cons.prems x obtain h where h: "py_int py (dict_get (held d) (PInt 0)) = Inr h"
    by (cases "py_int py (dict_get (held d) (PInt 0))") simp_all
  from Cons.prems x h obtain a where a: "py_int py (dict_get (attended d) (PInt 0)) = Inr a"
    by (cases "py_int py (dict_get (attended d) (PInt 0))") simp_all
  show ?case
  proof (cases "h > 0")
    case False
    have "insert_attendances py conn sid xs = Inr conn'"
      using Cons.prems insert_attendances_step_skip [OF h a False] x by simp
    from Cons.IH [OF this] show ?thesis
      using False h x by (simp add: month_reported_def)
  next
    case True
    from Cons.prems obtain c1 where
      c1: "insert_attendance conn sid month h a = Inr c1"
      and rest: "insert_attendances py c1 sid xs = Inr conn'"
      unfolding x insert_attendances_step_insert [OF h a True]
      by (cases "insert_attendance conn sid month h a") simp_all
    let ?row = "\<lparr>a_att_id = seq_attendance (tx conn) + 1, a_student_id = sid,
                 a_month = month, a_classes_held = h, a_classes_attended = a\<rparr>"
    have t1: "tbl_attendance (tx c1) = tbl_attendance (tx conn) @ [?row]"
      using insert_attendance_Inr [OF c1] by simp
    have f1: "only_attendance_changed (tx conn) (tx c1) \<and> foreign_keys c1 = foreign_keys conn"
      using insert_attendance_Inr [OF c1] by (simp add: only_attendance_changed_def)
    from Cons.IH [OF rest] obtain new where
      new: "tbl_attendance (tx conn') = tbl_attendance (tx c1) @ new"
      and rel: "list_all2 (attendance_row_of py sid) new
                  (filter (\<lambda>entry. month_reported py (snd entry)) xs)"
      and f2: "only_attendance_changed (tx c1) (tx conn')"
        "foreign_keys conn' = foreign_keys c1"
      by blast
    have "attendance_row_of py sid ?row (month, d)"
      using h a by (simp add: attendance_row_of_def)
    moreover have "month_reported py d"
      using h True by (simp add: month_reported_def)
    ultimately have "list_all2 (attendance_row_of py sid) (?row # new)
                       (filter (\<lambda>entry. month_reported py (snd entry)) (x # xs))"
      using rel x by simp
    moreover have "tbl_attendance (tx conn') = tbl_attendance (tx conn) @ (?row # new)"
      using new t1 by simp
    moreover have "only_attendance_changed (tx conn) (tx conn')"
      using f1 f2 only_attendance_changed_trans by blast
    moreover have "foreign_keys conn' = foreign_keys conn"
      using f1 f2 by simp
    ultimately show ?thesis by blast
  qed
qed

lemma insert_attendances_ok_iff:
  assumes "\<not> foreign_keys conn"
  shows "(\<exists>conn'. insert_attendances py conn sid xs = Inr conn') \<longleftrightarrow>
         (list_all (attendance_entry_ok py) xs \<and>
          distinct (map fst (filter (\<lambda>entry. month_reported py (snd entry)) xs)) \<and>
          (\<forall>entry \<in> set (filter (\<lambda>entry. month_reported py (snd entry)) xs).
             (sid, fst entry) \<notin>
               set (map (\<lambda>r. (a_student_id r, a_month r)) (tbl_attendance (tx conn)))))"
  using assms
proof (induction xs arbitrary: conn)
  case Nil
  then show ?case by simp
next
  case (Cons x xs)
  obtain month d where x: "x = (month, d)" by (cases x)
  let ?keys = "\<lambda>c. set (map (\<lambda>r. (a_student_id r, a_month r)) (tbl_attendance (tx c)))"
  let ?reported = "\<lambda>entry :: string \<times> attendance_entry. month_reported py (snd entry)"
  show ?case
  proof (cases "py_int py (dict_get (held d) (PInt 0))")
    case (Inl e)
    have "\<not> attendance_entry_ok py x"
      using Inl x by (simp add: attendance_entry_ok_def)
    then show ?thesis
      using insert_attendances_step_held_error [OF Inl] x by simp
  next
    case h: (Inr h)
    show ?thesis
    proof (cases "py_int py (dict_get (attended d) (PInt 0))")
      case (Inl e)
      have "\<not> attendance_entry_ok py x"
        using h Inl x by (simp add: attendance_entry_ok_def)
      then show ?thesis
        using insert_attendances_step_attended_error [OF h Inl] x by simp
    next
      case a: (Inr a)
      show ?thesis
      proof (cases "h > 0")
        case False
        have ok: "attendance_entry_ok py x"
          using h a False x by (simp add: attendance_entry_ok_def)
        have nr: "\<not> month_reported py d"
          using h False by (simp add: month_reported_def)
        show ?thesis
          unfolding x insert_attendances_step_skip [OF h a False]
          using Cons.IH [OF Cons.prems] ok nr x by simp
      next
        case True
        have rep: "month_reported py d"
          using h True by (simp add: month_reported_def)
        have ok: "attendance_entry_ok py x \<longleftrightarrow> sqlite_int_ok h \<and> sqlite_int_ok a"
          using h a True x by (simp add: attendance_entry_ok_def)
        show ?thesis
        proof (cases "sqlite_int_ok h \<and> sqlite_int_ok a")
          case False
          then have "insert_attendance conn sid month h a = Inl OverflowError"
            by (simp add: insert_attendance_def Let_def)
          then have "insert_attendances py conn sid (x # xs) = Inl OverflowError"
            unfolding x insert_attendances_step_insert [OF h a True] by simp
          then show ?thesis using ok False by simp
        next
          case ints: True
          show ?thesis
          proof (cases "(sid, month) \<in> ?keys conn")
            case dup: True
            then have "insert_attendance conn sid month h a = Inl IntegrityError"
              using ints by (simp add: insert_attendance_def Let_def)
            then have "insert_attendances py conn sid (x # xs) = Inl IntegrityError"
              unfolding x insert_attendances_step_insert [OF h a True] by simp
            moreover have "\<not> (\<forall>entry \<in> set (filter ?reported (x # xs)).
                               (sid, fst entry) \<notin> ?keys conn)"
              using dup rep x by auto
            ultimately show ?thesis by simp
          next
            case fresh: False
            obtain c1 where c1: "insert_attendance conn sid month h a = Inr c1"
              using insert_attendance_no_fk [OF Cons.prems _ _ fresh] ints by blast
            have step: "insert_attendances py conn sid (x # xs) =
                          insert_attendances py c1 sid xs"
              unfolding x insert_attendances_step_insert [OF h a True] using c1 by simp
            have fk: "\<not> foreign_keys c1"
              using insert_attendance_Inr [OF c1] Cons.prems by simp
            have keys: "?keys c1 = insert (sid, month) (?keys conn)"
              using insert_attendance_Inr [OF c1] by simp
            have "(\<forall>entry \<in> set (filter ?reported xs). (sid, fst entry) \<notin> ?keys c1) \<longleftrightarrow>
                  (month \<notin> set (map fst (filter ?reported xs)) \<and>
                   (\<forall>entry \<in> set (filter ?reported xs). (sid, fst entry) \<notin> ?keys conn))"
              unfolding keys by force
            then show ?thesis
              unfolding step Cons.IH [OF fk] using ok ints rep fresh x by auto
          qed
        qed
      qed
    qed
  qed
qed

lemma upsert_statements_connect:
  "upsert_statements py today (connect self) (get_all_departments self) p =
     (if payload_ints_ok p
      then (case insert_marks py (cleared today self p) (p_student_id p) (p_marks_data p) of
              Inl e \<Rightarrow> Inl e
            | Inr c4 \<Rightarrow>
                insert_attendances py c4 (p_student_id p) (p_attendance_data p))
      else Inl OverflowError)"
  by (simp add: upsert_statements_def insert_or_replace_student_def connect_def Let_def
      delete_marks_def delete_attendance_def cleared_def new_student_row_def
      payload_ints_ok_def)

lemma cleared_no_mark_keys:
  "(p_student_id p, code) \<notin>
     set (map (\<lambda>m. (m_student_id m, m_subject_code m)) (tbl_marks (tx (cleared today self p))))"
  by (auto simp: cleared_def)

lemma cleared_no_attendance_keys:
  "(p_student_id p, month) \<notin>
     set (map (\<lambda>r. (a_student_id r, a_month r))
            (tbl_attendance (tx (cleared today self p))))"
  by (auto simp: cleared_def)

lemma cleared_no_fk: "\<not> foreign_keys (cleared today self p)"
  by (simp add: cleared_def)

lemma upsert_statements_ok_iff:
  "(\<exists>conn'. upsert_statements py today (connect self) (get_all_departments self) p =
              Inr conn') \<longleftrightarrow> valid_payload py p"
proof (cases "payload_ints_ok p")
  case False
  then have "\<not> valid_payload py p"
    by (auto simp: valid_payload_def payload_ints_ok_def)
  then show ?thesis
    using False by (simp add: upsert_statements_connect)
next
  case ints: True
  let ?sid = "p_student_id p"
  let ?c3 = "cleared today self p"
  have marks_iff: "(\<exists>c4. insert_marks py ?c3 ?sid (p_marks_data p) = Inr c4) \<longleftrightarrow>
      (list_all (marks_entry_ok py) (p_marks_data p) \<and>
       distinct (map fst (filter (\<lambda>entry. mark_present (snd entry)) (p_marks_data p))))"
    unfolding insert_marks_ok_iff [OF cleared_no_fk]
    using cleared_no_mark_keys by blast
  show ?thesis
  proof (cases "insert_marks py ?c3 ?sid (p_marks_data p)")
    case (Inl e)
    then have "\<not> (\<exists>c4. insert_marks py ?c3 ?sid (p_marks_data p) = Inr c4)" by simp
    then have "\<not> valid_payload py p"
      unfolding marks_iff valid_payload_def by blast
    then show ?thesis
      using Inl ints by (simp add: upsert_statements_connect)
  next
    case (Inr c4)
    then have marks_ok: "list_all (marks_entry_ok py) (p_marks_data p) \<and>
       distinct (map fst (filter (\<lambda>entry. mark_present (snd entry)) (p_marks_data p)))"
      using marks_iff by blast
    have frame: "only_marks_changed (tx ?c3) (tx c4)" and fk: "\<not> foreign_keys c4"
      using insert_marks_frame [OF Inr] cleared_no_fk by simp_all
    have att: "tbl_attendance (tx c4) = tbl_attendance (tx ?c3)"
      using frame by (simp add: only_marks_changed_def)
    have att_iff: "(\<exists>c5. insert_attendances py c4 ?sid (p_attendance_data p) = Inr c5) \<longleftrightarrow>
      (list_all (attendance_entry_ok py) (p_attendance_data p) \<and>
       distinct (map fst (filter (\<lambda>entry. month_reported py (snd entry))
                            (p_attendance_data p))))"
      unfolding insert_attendances_ok_iff [OF fk] att
      using cleared_no_attendance_keys by blast
    have v: "valid_payload py p \<longleftrightarrow>
      (list_all (attendance_entry_ok py) (p_attendance_data p) \<and>
       distinct (map fst (filter (\<lambda>entry. month_reported py (snd entry))
                            (p_attendance_data p))))"
      using ints marks_ok unfolding valid_payload_def payload_ints_ok_def by blast
    have "upsert_statements py today (connect self) (get_all_departments self) p =
            insert_attendances py c4 ?sid (p_attendance_data p)"
      using Inr ints by (simp add: upsert_statements_connect)
    then show ?thesis
      unfolding v using att_iff by simp
  qed
qed

lemma upsert_statements_Inr:
  assumes "upsert_statements py today (connect self) (get_all_departments self) p = Inr conn'"
  shows "tbl_students (tx conn') =
           filter (\<lambda>r. s_student_id r \<noteq> p_student_id p) (tbl_students self) @
             [new_student_row today self p]"
    and "tbl_departments (tx conn') = tbl_departments self"
    and "tbl_subjects (tx conn') = tbl_subjects self"
    and "seq_subjects (tx conn') = seq_subjects self"
    and "\<exists>new. tbl_marks (tx conn') =
                 filter (\<lambda>m. m_student_id m \<noteq> p_student_id p) (tbl_marks self) @ new \<and>
               list_all2 (mark_row_of py (p_student_id p)) new
                 (filter (\<lambda>entry. mark_present (snd entry)) (p_marks_data p))"
    and "\<exists>new. tbl_attendance (tx conn') =
                 filter (\<lambda>a. a_student_id a \<noteq> p_student_id p) (tbl_attendance self) @ new \<and>
               list_all2 (attendance_row_of py (p_student_id p)) new
                 (filter (\<lambda>entry. month_reported py (snd entry)) (p_attendance_data p))"
proof -
  let ?sid = "p_student_id p"
  let ?c3 = "cleared today self p"
  from assms obtain c4 where
    c4: "insert_marks py ?c3 ?sid (p_marks_data p) = Inr c4"
    and c5: "insert_attendances py c4 ?sid (p_attendance_data p) = Inr conn'"
    unfolding upsert_statements_connect
    by (cases "payload_ints_ok p"; cases "insert_marks py ?c3 ?sid (p_marks_data p)") simp_all
  have m: "only_marks_changed (tx ?c3) (tx c4)"
    using insert_marks_frame [OF c4] by simp
  have a: "only_attendance_changed (tx c4) (tx conn')"
    using insert_attendances_Inr [OF c5] by simp
  show "tbl_students (tx conn') =
          filter (\<lambda>r. s_student_id r \<noteq> ?sid) (tbl_students self) @
            [new_student_row today self p]"
    using m a by (simp add: only_marks_changed_def only_attendance_changed_def cleared_def)
  show "tbl_departments (tx conn') = tbl_departments self"
    using m a by (simp add: only_marks_changed_def only_attendance_changed_def cleared_def)
  show "tbl_subjects (tx conn') = tbl_subjects self"
    using m a by (simp add: only_marks_changed_def only_attendance_changed_def cleared_def)
  show "seq_subjects (tx conn') = seq_subjects self"
    using m a by (simp add: only_marks_changed_def only_attendance_changed_def cleared_def)
  have "tbl_marks (tx conn') = tbl_marks (tx c4)"
    using a by (simp add: only_attendance_changed_def)
  moreover have "tbl_marks (tx ?c3) = filter (\<lambda>m. m_student_id m \<noteq> ?sid) (tbl_marks self)"
    by (simp add: cleared_def)
  ultimately show "\<exists>new. tbl_marks (tx conn') =
                 filter (\<lambda>m. m_student_id m \<noteq> ?sid) (tbl_marks self) @ new \<and>
               list_all2 (mark_row_of py ?sid) new
                 (filter (\<lambda>entry. mark_present (snd entry)) (p_marks_data p))"
    using insert_marks_Inr [OF c4] by simp
  have "tbl_attendance (tx c4) = filter (\<lambda>a. a_student_id a \<noteq> ?sid) (tbl_attendance self)"
    using m by (simp add: only_marks_changed_def cleared_def)
  then show "\<exists>new. tbl_attendance (tx conn') =
                 filter (\<lambda>a. a_student_id a \<noteq> ?sid) (tbl_attendance self) @ new \<and>
               list_all2 (attendance_row_of py ?sid) new
                 (filter (\<lambda>entry. month_reported py (snd entry)) (p_attendance_data p))"
    using insert_attendances_Inr [OF c5] by simp
qed

lemma add_or_update_student_valid:
  assumes "valid_payload py p"
  shows "\<exists>conn'. upsert_statements py today (connect self) (get_all_departments self) p =
                   Inr conn' \<and>
                 add_or_update_student py today self p =
                   ((True, Saved_successfully (p_student_id p)), tx conn')"
proof -
  from assms obtain conn' where
    "upsert_statements py today (connect self) (get_all_departments self) p = Inr conn'"
    using upsert_statements_ok_iff by blast
  then show ?thesis
    by (simp add: add_or_update_student_def run_upsert_def)
qed

lemma add_or_update_student_invalid:
  assumes "\<not> valid_payload py p"
  shows "\<not> fst (fst (add_or_update_student py today self p)) \<and>
         snd (add_or_update_student py today self p) = self"
proof (cases "upsert_statements py today (connect self) (get_all_departments self) p")
  case (Inl e)
  then show ?thesis
    by (cases e) (simp_all add: add_or_update_student_def run_upsert_def)
next
  case (Inr conn')
  then have "valid_payload py p"
    using upsert_statements_ok_iff by blast
  with assms show ?thesis by simp
qed

lemma add_or_update_student_ok_iff:
  "fst (fst (add_or_update_student py today self p)) \<longleftrightarrow> valid_payload py p"
proof (cases "valid_payload py p")
  case True
  then show ?thesis
    using add_or_update_student_valid [OF True, of today self] by auto
next
  case False
  then show ?thesis
    using add_or_update_student_invalid [OF False, of today self] by simp
qed

lemma add_or_update_student_saved:
  assumes "add_or_update_student py today self p = ((True, msg), self')"
  shows "valid_payload py p"
    and "\<exists>conn'. upsert_statements py today (connect self) (get_all_departments self) p =
                   Inr conn' \<and> self' = tx conn'"
proof -
  have "fst (fst (add_or_update_student py today self p))"
    using assms by simp
  then show v: "valid_payload py p"
    using add_or_update_student_ok_iff by blast
  from add_or_update_student_valid [OF v, of today self] assms
  show "\<exists>conn'. upsert_statements py today (connect self) (get_all_departments self) p =
                   Inr conn' \<and> self' = tx conn'"
    by auto
qed

lemma mark_rows_student:
  "list_all2 (mark_row_of py sid) rows ys \<Longrightarrow>
   filter (\<lambda>m. m_student_id m = sid) rows = rows \<and>
   filter (\<lambda>m. m_student_id m \<noteq> sid) rows = []"
  by (induction rule: list_all2_induct) (simp_all add: mark_row_of_def)

lemma attendance_rows_student:
  "list_all2 (attendance_row_of py sid) rows ys \<Longrightarrow>
   filter (\<lambda>a. a_student_id a = sid) rows = rows \<and>
   filter (\<lambda>a. a_student_id a \<noteq> sid) rows = []"
  by (induction rule: list_all2_induct) (simp_all add: attendance_row_of_def)

lemma attendance_rows_months:
  "list_all2 (attendance_row_of py sid) rows ys \<Longrightarrow> map a_month rows = map fst ys"
  by (induction rule: list_all2_induct) (simp_all add: attendance_row_of_def)

lemma mark_rows_stored:
  "list_all2 (mark_row_of py sid) rows ys \<Longrightarrow>
   map stored_mark rows = map (\<lambda>entry. (sid, fst entry, projr (py_float py (snd entry)))) ys"
  by (induction rule: list_all2_induct) (simp_all add: mark_row_of_def stored_mark_def)

lemma attendance_rows_stored:
  "list_all2 (attendance_row_of py sid) rows ys \<Longrightarrow>
   map stored_attendance rows =
     map (\<lambda>entry. (sid, fst entry,
            projr (py_int py (dict_get (held (snd entry)) (PInt 0))),
            projr (py_int py (dict_get (attended (snd entry)) (PInt 0))))) ys"
  by (induction rule: list_all2_induct)
    (simp_all add: attendance_row_of_def stored_attendance_def)

lemma filter_filter_neg: "filter P (filter (\<lambda>x. \<not> P x) xs) = []"
  by (induction xs) simp_all

lemma saved_rows:
  assumes "add_or_update_student py today self p = ((True, msg), self')"
  shows "list_all2 (mark_row_of py (p_student_id p)) (marks_of self' (p_student_id p))
           (filter (\<lambda>entry. mark_present (snd entry)) (p_marks_data p))"
    and "list_all2 (attendance_row_of py (p_student_id p))
           (attendance_of self' (p_student_id p))
           (filter (\<lambda>entry. month_reported py (snd entry)) (p_attendance_data p))"
    and "tbl_marks self' =
           filter (\<lambda>m. m_student_id m \<noteq> p_student_id p) (tbl_marks self) @
             marks_of self' (p_student_id p)"
    and "tbl_attendance self' =
           filter (\<lambda>a. a_student_id a \<noteq> p_student_id p) (tbl_attendance self) @
             attendance_of self' (p_student_id p)"
    and "tbl_students self' =
           filter (\<lambda>r. s_student_id r \<noteq> p_student_id p) (tbl_students self) @
             [new_student_row today self p]"
    and "tbl_departments self' = tbl_departments self"
    and "tbl_subjects self' = tbl_subjects self"
    and "seq_subjects self' = seq_subjects self"
proof -
  let ?sid = "p_student_id p"
  from add_or_update_student_saved(2) [OF assms] obtain conn' where
    c: "upsert_statements py today (connect self) (get_all_departments self) p = Inr conn'"
    and s: "self' = tx conn'"
    by blast
  from upsert_statements_Inr(5) [OF c] obtain new where
    m: "tbl_marks self' = filter (\<lambda>m. m_student_id m \<noteq> ?sid) (tbl_marks self) @ new"
    and mr: "list_all2 (mark_row_of py ?sid) new
               (filter (\<lambda>entry. mark_present (snd entry)) (p_marks_data p))"
    unfolding s by blast
  have mo: "marks_of self' ?sid = new"
    unfolding marks_of_def m using mark_rows_student [OF mr]
    by (simp add: filter_filter_neg [of "\<lambda>m. m_student_id m = ?sid"])
  from upsert_statements_Inr(6) [OF c] obtain newa where
    a: "tbl_attendance self' =
          filter (\<lambda>a. a_student_id a \<noteq> ?sid) (tbl_attendance self) @ newa"
    and ar: "list_all2 (attendance_row_of py ?sid) newa
               (filter (\<lambda>entry. month_reported py (snd entry)) (p_attendance_data p))"
    unfolding s by blast
  have ao: "attendance_of self' ?sid = newa"
    unfolding attendance_of_def a using attendance_rows_student [OF ar]
    by (simp add: filter_filter_neg [of "\<lambda>a. a_student_id a = ?sid"])
  show "list_all2 (mark_row_of py ?sid) (marks_of self' ?sid)
           (filter (\<lambda>entry. mark_present (snd entry)) (p_marks_data p))"
    using mr mo by simp
  show "list_all2 (attendance_row_of py ?sid) (attendance_of self' ?sid)
           (filter (\<lambda>entry. month_reported py (snd entry)) (p_attendance_data p))"
    using ar ao by simp
  show "tbl_marks self' =
          filter (\<lambda>m. m_student_id m \<noteq> ?sid) (tbl_marks self) @ marks_of self' ?sid"
    using m mo by simp
  show "tbl_attendance self' =
          filter (\<lambda>a. a_student_id a \<noteq> ?sid) (tbl_attendance self) @
            attendance_of self' ?sid"
    using a ao by simp
  show "tbl_students self' =
          filter (\<lambda>r. s_student_id r \<noteq> ?sid) (tbl_students self) @
            [new_student_row today self p]"
    using upsert_statements_Inr(1) [OF c] s by simp
  show "tbl_departments self' = tbl_departments self"
    using upsert_statements_Inr(2) [OF c] s by simp
  show "tbl_subjects self' = tbl_subjects self"
    using upsert_statements_Inr(3) [OF c] s by simp
  show "seq_subjects self' = seq_subjects self"
    using upsert_statements_Inr(4) [OF c] s by simp
qed

text \<open>
  C6. For every percentage \<open>p\<close>, \<open>calculate_grade\<close> returns exactly one of the seven
  grades O, A+, A, B+, B, C and F, the first matching lower bound of 90, 80, 70, 60, 50 and
  40 taken from the top: \<open>p \<ge> 90\<close> gives O, \<open>80 \<le> p < 90\<close> gives A+, and so on down to
  \<open>p < 40\<close>, which gives F.
\<close>

theorem calculate_grade_tiers:
  "(90 \<le> p \<longrightarrow> calculate_grade p = ''O'') \<and>
   (80 \<le> p \<and> p < 90 \<longrightarrow> calculate_grade p = ''A+'') \<and>
   (70 \<le> p \<and> p < 80 \<longrightarrow> calculate_grade p = ''A'') \<and>
   (60 \<le> p \<and> p < 70 \<longrightarrow> calculate_grade p = ''B+'') \<and>
   (50 \<le> p \<and> p < 60 \<longrightarrow> calculate_grade p = ''B'') \<and>
   (40 \<le> p \<and> p < 50 \<longrightarrow> calculate_grade p = ''C'') \<and>
   (p < 40 \<longrightarrow> calculate_grade p = ''F'') \<and>
   calculate_grade p \<in> {''O'', ''A+'', ''A'', ''B+'', ''B'', ''C'', ''F''}"
  by (simp add: calculate_grade_def)

theorem calculate_grade_tiers_witness:
  "calculate_grade 90 = ''O'' \<and> calculate_grade (8999 / 100) = ''A+'' \<and>
   calculate_grade 80 = ''A+'' \<and> calculate_grade (7999 / 100) = ''A'' \<and>
   calculate_grade 70 = ''A'' \<and> calculate_grade (6999 / 100) = ''B+'' \<and>
   calculate_grade 60 = ''B+'' \<and> calculate_grade (5999 / 100) = ''B'' \<and>
   calculate_grade 50 = ''B'' \<and> calculate_grade (4999 / 100) = ''C'' \<and>
   calculate_grade 40 = ''C'' \<and> calculate_grade (3999 / 100) = ''F''"
  using calculate_grade_tiers [of 90] calculate_grade_tiers [of "8999 / 100"]
    calculate_grade_tiers [of 80] calculate_grade_tiers [of "7999 / 100"]
    calculate_grade_tiers [of 70] calculate_grade_tiers [of "6999 / 100"]
    calculate_grade_tiers [of 60] calculate_grade_tiers [of "5999 / 100"]
    calculate_grade_tiers [of 50] calculate_grade_tiers [of "4999 / 100"]
    calculate_grade_tiers [of 40] calculate_grade_tiers [of "3999 / 100"]
  by simp

text \<open>
  C7. After a successful upsert the stored detail rows of the student are exactly one
  Mark row per marks entry whose value is present and non-blank, holding that subject code
  and \<open>float\<close> of the value, and one Attendance row per attendance entry whose held value
  is greater than zero, holding that month and the two ints, in the order of the payload.
  A month whose held value is not greater than zero (in particular \<open>held = 0\<close>) has no
  Attendance row.
\<close>

theorem saved_detail_rows:
  assumes "add_or_update_student py today self p = ((True, msg), self')"
  shows "list_all2 (mark_row_of py (p_student_id p)) (marks_of self' (p_student_id p))
           (filter (\<lambda>entry. mark_present (snd entry)) (p_marks_data p)) \<and>
         list_all2 (attendance_row_of py (p_student_id p))
           (attendance_of self' (p_student_id p))
           (filter (\<lambda>entry. month_reported py (snd entry)) (p_attendance_data p)) \<and>
         (\<forall>entry \<in> set (p_attendance_data p).
            distinct (map fst (p_attendance_data p)) \<and> \<not> month_reported py (snd entry) \<longrightarrow>
            fst entry \<notin> set (map a_month (attendance_of self' (p_student_id p))))"
proof -
  let ?rows = "attendance_of self' (p_student_id p)"
  let ?reported = "filter (\<lambda>entry. month_reported py (snd entry)) (p_attendance_data p)"
  note rows = saved_rows(1,2) [OF assms]
  have months: "map a_month ?rows = map fst ?reported"
    using attendance_rows_months [OF rows(2)] .
  have "fst entry \<notin> set (map a_month ?rows)"
    if e: "entry \<in> set (p_attendance_data p)"
      and d: "distinct (map fst (p_attendance_data p))"
      and n: "\<not> month_reported py (snd entry)" for entry
  proof
    assume "fst entry \<in> set (map a_month ?rows)"
    then obtain e' where e': "e' \<in> set (p_attendance_data p)"
      "month_reported py (snd e')" "fst e' = fst entry"
      unfolding months by auto
    have "inj_on fst (set (p_attendance_data p))"
      using d by (simp add: distinct_map)
    then have "e' = entry"
      using e e'(1,3) by (simp add: inj_on_def)
    with e'(2) n show False by simp
  qed
  with rows show ?thesis by blast
qed

lemma c7_payload_valid: "valid_payload no_parsers c7_payload"
  by (simp add: valid_payload_def c7_payload_def s1_payload_def sqlite_int_ok_def
      marks_entry_ok_def mark_present_def blank_after_strip_def py_isspace_def
      py_float_def attendance_entry_ok_def py_int_def dict_get_def month_reported_def)

theorem saved_detail_rows_witness:
  "add_or_update_student no_parsers ''2024-01-01'' two_subjects_db c7_payload =
     ((True, Saved_successfully ''S1''), c7_db) \<and>
   map stored_mark (marks_of c7_db ''S1'') = [(''S1'', ''MTH01'', 80), (''S1'', ''PHY01'', 70)] \<and>
   map stored_attendance (attendance_of c7_db ''S1'') =
     [(''S1'', ''Jan'', 20, 18), (''S1'', ''Feb'', 20, 10)] \<and>
   ''Mar'' \<notin> set (map a_month (attendance_of c7_db ''S1''))"
proof -
  have sid: "p_student_id c7_payload = ''S1''"
    by (simp add: c7_payload_def s1_payload_def)
  have saved: "add_or_update_student no_parsers ''2024-01-01'' two_subjects_db c7_payload =
                 ((True, Saved_successfully ''S1''), c7_db)"
    using add_or_update_student_valid [OF c7_payload_valid, of "''2024-01-01''" two_subjects_db]
    unfolding c7_db_def sid by auto
  have marks: "filter (\<lambda>entry. mark_present (snd entry)) (p_marks_data c7_payload) =
                 [(''MTH01'', PInt 80), (''PHY01'', PFloat 70)]"
    by (simp add: c7_payload_def mark_present_def blank_after_strip_def py_isspace_def)
  have months: "filter (\<lambda>entry. month_reported no_parsers (snd entry))
                  (p_attendance_data c7_payload) =
                 [(''Jan'', \<lparr>held = Some (PInt 20), attended = Some (PInt 18)\<rparr>),
                  (''Feb'', \<lparr>held = Some (PInt 20), attended = Some (PInt 10)\<rparr>)]"
    by (simp add: c7_payload_def month_reported_def py_int_def dict_get_def)
  from saved_detail_rows [OF saved] have
    m: "list_all2 (mark_row_of no_parsers ''S1'') (marks_of c7_db ''S1'')
          [(''MTH01'', PInt 80), (''PHY01'', PFloat 70)]"
    and a: "list_all2 (attendance_row_of no_parsers ''S1'') (attendance_of c7_db ''S1'')
          [(''Jan'', \<lparr>held = Some (PInt 20), attended = Some (PInt 18)\<rparr>),
           (''Feb'', \<lparr>held = Some (PInt 20), attended = Some (PInt 10)\<rparr>)]"
    unfolding sid marks months by simp_all
  have "map stored_mark (marks_of c7_db ''S1'') =
          [(''S1'', ''MTH01'', 80), (''S1'', ''PHY01'', 70)]"
    using mark_rows_stored [OF m] by (simp add: py_float_def)
  moreover have sa: "map stored_attendance (attendance_of c7_db ''S1'') =
          [(''S1'', ''Jan'', 20, 18), (''S1'', ''Feb'', 20, 10)]"
    using attendance_rows_stored [OF a] by (simp add: py_int_def dict_get_def)
  moreover have "''Mar'' \<notin> set (map a_month (attendance_of c7_db ''S1''))"
    using attendance_rows_months [OF a] by simp
  ultimately show ?thesis
    using saved by simp
qed

end
